theory Spec2Isabelle
  imports Main "HOL-Library.Word"
begin

section \<open>The bus adapter driver (python/busadapter.py)\<close>

text \<open>
  The driver talks to a microcontroller over a serial port with length-prefixed frames.
  The embedding keeps the structure of the Python module: the module constants, the
  exception classes, \<open>BusError.__init__\<close> with its message table, the two framing
  primitives \<open>_send\<close> and \<open>_recv\<close> (here \<open>send\<close> and \<open>recv\<close>, since an Isabelle name
  cannot start with an underscore), \<open>digital_write\<close>, and the I2C master operations
  \<open>__init__\<close>, \<open>write\<close> (here \<open>write_i2c\<close>: \<open>write\<close> is an Isar command), \<open>read\<close>
  and \<open>transaction\<close>.

  Every operation takes the state of the open serial port and returns the outcome
  together with the state of the port afterwards, also when the outcome is an
  exception: a Python exception does not undo the reads and writes made before it.
\<close>

subsection \<open>Module constants\<close>

type_synonym byte = "8 word"

definition CMD_INIT :: int where "CMD_INIT = 1"
definition CMD_WRITE :: int where "CMD_WRITE = 3"
definition CMD_READ :: int where "CMD_READ = 4"
definition CMD_TRANSACTION :: int where "CMD_TRANSACTION = 5"
definition CMD_DIGITAL_WRITE :: int where "CMD_DIGITAL_WRITE = 8"

definition MODE_I2C_MASTER :: int where "MODE_I2C_MASTER = 1"

definition RESPONSE_OK :: int where "RESPONSE_OK = 0"
definition RESPONSE_ERROR :: int where "RESPONSE_ERROR = 1"
definition RESPONSE_CMD_UNAVAILABLE :: int where "RESPONSE_CMD_UNAVAILABLE = 2"
definition RESPONSE_WRONG_COMMAND :: int where "RESPONSE_WRONG_COMMAND = 3"
definition RESPONSE_BAD_PARAMETERS :: int where "RESPONSE_BAD_PARAMETERS = 4"
definition RESPONSE_SHORT_WRITE :: int where "RESPONSE_SHORT_WRITE = 5"
definition RESPONSE_NACK_ON_ADDRESS :: int where "RESPONSE_NACK_ON_ADDRESS = 6"
definition RESPONSE_NACK_ON_DATA :: int where "RESPONSE_NACK_ON_DATA = 7"
definition RESPONSE_DATA_TOO_LONG :: int where "RESPONSE_DATA_TOO_LONG = 8"
definition RESPONSE_OTHER_ERROR :: int where "RESPONSE_OTHER_ERROR = 9"

definition PIN_STATUS_HIGH :: int where "PIN_STATUS_HIGH = 0x10"
definition PIN_STATUS_LOW :: int where "PIN_STATUS_LOW = 0x11"
definition PIN_STATUS_TOGGLE :: int where "PIN_STATUS_TOGGLE = 0x12"

subsection \<open>Python values and exceptions\<close>

text \<open>
  The values a caller passes where the source accepts several Python types: a string,
  a boolean or an integer. \<open>py_eq\<close> is Python's \<open>==\<close> on them, which is also the
  equality of dictionary keys: \<open>True == 1\<close> and \<open>False == 0\<close> hold (and the hashes
  agree), a string equals no number.
\<close>

datatype pyval = PyStr string | PyBool bool | PyInt int

fun py_num :: "pyval \<Rightarrow> int option" where
  "py_num (PyStr s) = None"
| "py_num (PyBool b) = Some (if b then 1 else 0)"
| "py_num (PyInt i) = Some i"

fun py_eq :: "pyval \<Rightarrow> pyval \<Rightarrow> bool" where
  "py_eq (PyStr s) (PyStr t) = (s = t)"
| "py_eq (PyStr s) v = False"
| "py_eq v (PyStr t) = False"
| "py_eq v w = (py_num v = py_num w)"

text \<open>
  \<open>d[k]\<close> on a dictionary literal whose keys are pairwise unequal: the value stored
  under the key equal to \<open>k\<close>, \<open>None\<close> where Python raises \<open>KeyError\<close>.
\<close>

fun py_getitem :: "(pyval \<times> 'v) list \<Rightarrow> pyval \<Rightarrow> 'v option" where
  "py_getitem [] k = None"
| "py_getitem ((k', v) # d) k = (if py_eq k' k then Some v else py_getitem d k)"

text \<open>
  The exceptions of the module and the built-in ones its code can raise. \<open>ValueError\<close>
  keeps the message template and the arguments of \<open>str.format\<close> apart (\<open>repr\<close> is not
  rendered); \<open>StructError\<close> is \<open>struct.error\<close>; \<open>AssertionError\<close> carries the
  expression after the comma of the \<open>assert\<close>.
\<close>

datatype error =
    Timeout
  | BusError string
  | ProtocolError
  | ValueError string "pyval list"
  | KeyError pyval
  | StructError
  | IndexError
  | AssertionError int

fun is_BusError :: "error \<Rightarrow> bool" where
  "is_BusError (BusError m) = True"
| "is_BusError e = False"

subsection \<open>Rendering integers in f-strings\<close>

text \<open>\<open>str\<close> of a non-negative integer: its decimal digits, most significant first.\<close>

definition digit :: "nat \<Rightarrow> char" where
  "digit d = ''0123456789'' ! d"

fun str_nat :: "nat \<Rightarrow> string" where
  "str_nat n = (if 10 \<le> n then str_nat (n div 10) @ [digit (n mod 10)] else [digit n])"

declare str_nat.simps [simp del]

definition str_int :: "int \<Rightarrow> string" where
  "str_int i = (if i < 0 then ''-'' @ str_nat (nat (- i)) else str_nat (nat i))"

subsection \<open>\<open>BusError.__init__\<close>\<close>

definition bus_error_messages :: "(pyval \<times> string) list" where
  "bus_error_messages =
     [(PyInt RESPONSE_SHORT_WRITE, ''short write''),
      (PyInt RESPONSE_NACK_ON_ADDRESS, ''nack on address''),
      (PyInt RESPONSE_NACK_ON_DATA, ''nack on data''),
      (PyInt RESPONSE_DATA_TOO_LONG, ''data too long for transmit buffer''),
      (PyInt RESPONSE_OTHER_ERROR, ''other error'')]"

text \<open>
  \<open>raise BusError(msg)\<close>: the exception the caller receives. An \<open>int\<close> (\<open>bool\<close> is a
  subclass of \<open>int\<close>) is looked up in the table, and a missing key makes the constructor
  itself raise \<open>KeyError\<close>.
\<close>

fun BusError_init :: "pyval \<Rightarrow> error" where
  "BusError_init (PyStr s) = BusError s"
| "BusError_init msg =
     (case py_getitem bus_error_messages msg of
        None \<Rightarrow> KeyError msg
      | Some s \<Rightarrow> BusError s)"

subsection \<open>\<open>struct.pack\<close>\<close>

definition pack_B :: "int \<Rightarrow> error + byte list" where
  "pack_B x = (if 0 \<le> x \<and> x \<le> 255 then Inr [word_of_int x] else Inl StructError)"

definition pack_H :: "int \<Rightarrow> error + byte list" where
  "pack_H x =
     (if 0 \<le> x \<and> x \<le> 65535 then Inr [word_of_int (x mod 256), word_of_int (x div 256)]
      else Inl StructError)"

fun pack_cat :: "error + byte list \<Rightarrow> error + byte list \<Rightarrow> error + byte list" where
  "pack_cat (Inl e) r = Inl e"
| "pack_cat (Inr a) (Inl e) = Inl e"
| "pack_cat (Inr a) (Inr b) = Inr (a @ b)"

definition pack_BB :: "int \<Rightarrow> int \<Rightarrow> error + byte list" where
  "pack_BB x y = pack_cat (pack_B x) (pack_B y)"

definition pack_BBH :: "int \<Rightarrow> int \<Rightarrow> int \<Rightarrow> error + byte list" where
  "pack_BBH x y z = pack_cat (pack_B x) (pack_cat (pack_B y) (pack_H z))"

text \<open>\<open>bytes(payload)\<close> on a sequence of integers.\<close>

definition bytes :: "int list \<Rightarrow> error + byte list" where
  "bytes xs =
     (if list_all (\<lambda>x. 0 \<le> x \<and> x \<le> 255) xs then Inr (map word_of_int xs)
      else Inl (ValueError ''bytes must be in range(0, 256)'' []))"

subsection \<open>The serial port\<close>

text \<open>
  \<open>self.sp\<close> is a \<open>serial.Serial\<close> object of the pyserial package, outside the module.
  It is a parameter of the model: a state of any type \<open>'c\<close> with the two methods the
  driver calls. \<open>sp_read c n\<close> is \<open>self.sp.read(n)\<close>, the block returned and the port
  afterwards; \<open>sp_write c d\<close> is \<open>self.sp.write(d)\<close>. The model covers an adapter whose
  port is open (\<open>close\<close> is not part of it).
\<close>

record 'c transport =
  sp_read :: "'c \<Rightarrow> int \<Rightarrow> byte list \<times> 'c"
  sp_write :: "'c \<Rightarrow> byte list \<Rightarrow> 'c"

type_synonym ('a, 'c) outcome = "(error + 'a) \<times> 'c"

subsection \<open>\<open>BusAdapter._send\<close> and \<open>BusAdapter._recv\<close>\<close>

text \<open>The argument of \<open>self.sp.write\<close> in \<open>_send\<close>: \<open>pack('BB', len(data) + 1, cmd_code) + data\<close>.\<close>

definition encode :: "int \<Rightarrow> byte list \<Rightarrow> error + byte list" where
  "encode cmd_code data = pack_cat (pack_BB (int (length data) + 1) cmd_code) (Inr data)"

definition send :: "'c transport \<Rightarrow> 'c \<Rightarrow> int \<Rightarrow> byte list \<Rightarrow> (unit, 'c) outcome" where
  "send T c cmd_code data =
     (case encode cmd_code data of
        Inl e \<Rightarrow> (Inl e, c)
      | Inr frame \<Rightarrow> (Inr (), sp_write T c frame))"

definition short_response :: "nat \<Rightarrow> int \<Rightarrow> string" where
  "short_response got expected =
     ''short response; got '' @ str_nat got @ '' bytes, expected '' @ str_int expected"

text \<open>
  The \<open>while bytes_to_read:\<close> loop of \<open>_recv\<close>. \<open>expected\<close> is \<open>response_size[0]\<close>, which
  the loop only reads for the message. Nothing in the loop bounds the length of a
  block, so it is a partial function: \<open>None\<close> is a loop that runs forever.
\<close>

partial_function (option) recv_loop ::
  "'c transport \<Rightarrow> 'c \<Rightarrow> int \<Rightarrow> byte list \<Rightarrow> int \<Rightarrow> (byte list, 'c) outcome option" where
  "recv_loop T c bytes_to_read response expected =
     (if bytes_to_read \<noteq> 0 then
        (case sp_read T c bytes_to_read of
           (block, c') \<Rightarrow>
             if block = [] then
               Some (Inl (BusError_init (PyStr (short_response (length response) expected))), c')
             else recv_loop T c' (bytes_to_read - int (length block)) (response @ block) expected)
      else Some (Inr response, c))"

declare recv_loop.simps [code]

definition recv :: "'c transport \<Rightarrow> 'c \<Rightarrow> (int \<times> byte list, 'c) outcome option" where
  "recv T c =
     (case sp_read T c 1 of
        ([], c1) \<Rightarrow> Some (Inl Timeout, c1)
      | (size0 # _, c1) \<Rightarrow>
          (case recv_loop T c1 (uint size0) [] (uint size0) of
             None \<Rightarrow> None
           | Some (Inl e, c2) \<Rightarrow> Some (Inl e, c2)
           | Some (Inr [], c2) \<Rightarrow> Some (Inl IndexError, c2)
           | Some (Inr (b # rest), c2) \<Rightarrow> Some (Inr (uint b, rest), c2)))"

subsection \<open>\<open>BusAdapter.digital_write\<close>\<close>

definition pin_status_table :: "(pyval \<times> int) list" where
  "pin_status_table =
     [(PyStr ''high'', PIN_STATUS_HIGH),
      (PyStr ''low'', PIN_STATUS_LOW),
      (PyBool True, PIN_STATUS_HIGH),
      (PyBool False, PIN_STATUS_LOW),
      (PyInt PIN_STATUS_HIGH, PIN_STATUS_HIGH),
      (PyInt PIN_STATUS_LOW, PIN_STATUS_LOW),
      (PyStr ''toggle'', PIN_STATUS_TOGGLE)]"

definition digital_write ::
  "'c transport \<Rightarrow> 'c \<Rightarrow> int \<Rightarrow> pyval \<Rightarrow> (unit, 'c) outcome option" where
  "digital_write T c pin_number status =
     (case py_getitem pin_status_table status of
        None \<Rightarrow> Some (Inl (ValueError ''wrong pin status {!r}'' [status]), c)
      | Some status' \<Rightarrow>
          (case pack_BB pin_number status' of
             Inl e \<Rightarrow> Some (Inl e, c)
           | Inr data \<Rightarrow>
               (case send T c CMD_DIGITAL_WRITE data of
                  (Inl e, c1) \<Rightarrow> Some (Inl e, c1)
                | (Inr _, c1) \<Rightarrow>
                    (case recv T c1 of
                       None \<Rightarrow> None
                     | Some (Inl e, c2) \<Rightarrow> Some (Inl e, c2)
                     | Some (Inr (resp_code, response), c2) \<Rightarrow>
                         if resp_code = RESPONSE_OK then Some (Inr (), c2)
                         else Some (Inl (AssertionError resp_code), c2)))))"

subsection \<open>\<open>BusAdapterI2CMaster\<close>\<close>

text \<open>
  \<open>__init__\<close> after \<open>super().__init__(port)\<close> has opened the port: \<open>c\<close> is the port
  as the base constructor leaves it.
\<close>

definition BusAdapterI2CMaster_init :: "'c transport \<Rightarrow> 'c \<Rightarrow> (unit, 'c) outcome option" where
  "BusAdapterI2CMaster_init T c =
     (case pack_BBH MODE_I2C_MASTER 0 400 of
        Inl e \<Rightarrow> Some (Inl e, c)
      | Inr data \<Rightarrow>
          (case send T c CMD_INIT data of
             (Inl e, c1) \<Rightarrow> Some (Inl e, c1)
           | (Inr _, c1) \<Rightarrow>
               (case recv T c1 of
                  None \<Rightarrow> None
                | Some (Inl e, c2) \<Rightarrow> Some (Inl e, c2)
                | Some (Inr (msg_code, payload), c2) \<Rightarrow>
                    if msg_code \<noteq> RESPONSE_OK \<and> payload \<noteq> [] then Some (Inl ProtocolError, c2)
                    else Some (Inr (), c2))))"

definition write_i2c ::
  "'c transport \<Rightarrow> 'c \<Rightarrow> int \<Rightarrow> byte list \<Rightarrow> (unit, 'c) outcome option" where
  "write_i2c T c address payload =
     (case pack_B address of
        Inl e \<Rightarrow> Some (Inl e, c)
      | Inr a \<Rightarrow>
          (case send T c CMD_WRITE (a @ payload) of
             (Inl e, c1) \<Rightarrow> Some (Inl e, c1)
           | (Inr _, c1) \<Rightarrow>
               (case recv T c1 of
                  None \<Rightarrow> None
                | Some (Inl e, c2) \<Rightarrow> Some (Inl e, c2)
                | Some (Inr (msg_code, response), c2) \<Rightarrow>
                    if length response \<noteq> 0 \<or> msg_code = RESPONSE_BAD_PARAMETERS then
                      Some (Inl ProtocolError, c2)
                    else if msg_code \<noteq> RESPONSE_OK then
                      Some (Inl (BusError_init (PyInt msg_code)), c2)
                    else Some (Inr (), c2))))"

definition read ::
  "'c transport \<Rightarrow> 'c \<Rightarrow> int \<Rightarrow> int \<Rightarrow> (byte list, 'c) outcome option" where
  "read T c address read_size =
     (case pack_BB address read_size of
        Inl e \<Rightarrow> Some (Inl e, c)
      | Inr data \<Rightarrow>
          (case send T c CMD_READ data of
             (Inl e, c1) \<Rightarrow> Some (Inl e, c1)
           | (Inr _, c1) \<Rightarrow>
               (case recv T c1 of
                  None \<Rightarrow> None
                | Some (Inl e, c2) \<Rightarrow> Some (Inl e, c2)
                | Some (Inr (msg_code, response), c2) \<Rightarrow>
                    if msg_code = RESPONSE_BAD_PARAMETERS then Some (Inl ProtocolError, c2)
                    else if msg_code \<noteq> RESPONSE_OK then
                      Some (Inl (BusError_init (PyInt msg_code)), c2)
                    else if int (length response) \<noteq> read_size then
                      Some (Inl (BusError_init (PyStr ''short read'')), c2)
                    else Some (Inr response, c2))))"

definition short_read :: "nat \<Rightarrow> int \<Rightarrow> string" where
  "short_read got expected =
     ''short read; got '' @ str_nat got @ '' bytes, expected '' @ str_int expected"

definition transaction ::
  "'c transport \<Rightarrow> 'c \<Rightarrow> int \<Rightarrow> int list \<Rightarrow> int \<Rightarrow> (byte list, 'c) outcome option" where
  "transaction T c address payload read_size =
     (if length payload < 1 then
        Some (Inl (ValueError ''at least one byte of payload is required'' []), c)
      else
        (case pack_cat (pack_BB address read_size) (bytes payload) of
           Inl e \<Rightarrow> Some (Inl e, c)
         | Inr data \<Rightarrow>
             (case send T c CMD_TRANSACTION data of
                (Inl e, c1) \<Rightarrow> Some (Inl e, c1)
              | (Inr _, c1) \<Rightarrow>
                  (case recv T c1 of
                     None \<Rightarrow> None
                   | Some (Inl e, c2) \<Rightarrow> Some (Inl e, c2)
                   | Some (Inr (msg_code, response), c2) \<Rightarrow>
                       if msg_code = RESPONSE_BAD_PARAMETERS then Some (Inl ProtocolError, c2)
                       else if msg_code \<noteq> RESPONSE_OK then
                         Some (Inl (BusError_init (PyInt msg_code)), c2)
                       else if int (length response) \<noteq> read_size then
                         Some (Inl (BusError_init
                           (PyStr (short_read (length response) read_size))), c2)
                       else Some (Inr response, c2)))))"

subsection \<open>Describing what a port delivers\<close>

text \<open>
  \<open>delivers T c n blocks\<close>: read by the loop of \<open>_recv\<close> with \<open>n\<close> bytes still to come,
  the port in state \<open>c\<close> returns the non-empty blocks \<open>blocks\<close> one after the other,
  and with the last of them the count reaches zero.

  \<open>starves T c n blocks\<close>: the port returns the non-empty blocks \<open>blocks\<close> and then a
  zero-length read while the count is still not zero.

  \<open>after_reads T c n blocks\<close> is the port after those reads.
\<close>

fun delivers :: "'c transport \<Rightarrow> 'c \<Rightarrow> int \<Rightarrow> byte list list \<Rightarrow> bool" where
  "delivers T c n [] = (n = 0)"
| "delivers T c n (b # bs) =
     (n \<noteq> 0 \<and> b \<noteq> [] \<and> fst (sp_read T c n) = b \<and>
      delivers T (snd (sp_read T c n)) (n - int (length b)) bs)"

fun starves :: "'c transport \<Rightarrow> 'c \<Rightarrow> int \<Rightarrow> byte list list \<Rightarrow> bool" where
  "starves T c n [] = (n \<noteq> 0 \<and> fst (sp_read T c n) = [])"
| "starves T c n (b # bs) =
     (n \<noteq> 0 \<and> b \<noteq> [] \<and> fst (sp_read T c n) = b \<and>
      starves T (snd (sp_read T c n)) (n - int (length b)) bs)"

fun after_reads :: "'c transport \<Rightarrow> 'c \<Rightarrow> int \<Rightarrow> byte list list \<Rightarrow> 'c" where
  "after_reads T c n [] = c"
| "after_reads T c n (b # bs) = after_reads T (snd (sp_read T c n)) (n - int (length b)) bs"

text \<open>
  \<open>remaining n blocks\<close>: the values of the count \<open>bytes_to_read\<close> at the reads that
  return \<open>blocks\<close>, when the loop starts with the count \<open>n\<close>.
\<close>

fun remaining :: "int \<Rightarrow> byte list list \<Rightarrow> int list" where
  "remaining n [] = []"
| "remaining n (b # bs) = n # remaining (n - int (length b)) bs"

text \<open>
  \<open>presents T c frame blocks\<close>: the port in state \<open>c\<close> holds the frame \<open>frame\<close> for
  \<open>_recv\<close>: the one-byte read returns its first byte, and the reads of the loop
  return the rest of it, cut into \<open>blocks\<close>.
\<close>

fun presents :: "'c transport \<Rightarrow> 'c \<Rightarrow> byte list \<Rightarrow> byte list list \<Rightarrow> bool" where
  "presents T c [] blocks = False"
| "presents T c (size0 # body) blocks =
     (fst (sp_read T c 1) = [size0] \<and> concat blocks = body \<and>
      delivers T (snd (sp_read T c 1)) (uint size0) blocks)"

text \<open>
  The contract of the transport's \<open>read\<close>: asked for a positive number of bytes, it
  returns at most that many.
\<close>

definition read_contract :: "'c transport \<Rightarrow> bool" where
  "read_contract T = (\<forall>c n. 0 < n \<longrightarrow> int (length (fst (sp_read T c n))) \<le> n)"

text \<open>
  A transport that behaves as \<open>T\<close> and records, next to the state of \<open>T\<close>, the size
  asked for by every \<open>read\<close>.
\<close>

definition logged :: "'c transport \<Rightarrow> ('c \<times> int list) transport" where
  "logged T =
     \<lparr>sp_read = (\<lambda>(c, log) n. (fst (sp_read T c n), (snd (sp_read T c n), log @ [n]))),
      sp_write = (\<lambda>(c, log) d. (sp_write T c d, log))\<rparr>"

subsection \<open>A simulated device\<close>

text \<open>
  Modelled from the spec: the transport collaborator (pyserial's port object), of which
  the repository has only the calls. The spec gives \<open>read(n)\<close> as "up to n bytes,
  zero-length on timeout" and \<open>write(bytes)\<close>. The simulated port holds the bursts of
  bytes the device will send, in order: a \<open>read(n)\<close> returns up to \<open>n\<close> bytes of the
  first burst and never waits for the next one; an empty burst is a read that times
  out, as is every read once the bursts are used up. Writes are recorded.
\<close>

record sim =
  inbuf :: "byte list list"
  outlog :: "byte list list"

definition sim_read :: "sim \<Rightarrow> int \<Rightarrow> byte list \<times> sim" where
  "sim_read s n =
     (case inbuf s of
        [] \<Rightarrow> ([], s)
      | b # bs \<Rightarrow>
          if int (length b) \<le> n then (b, s\<lparr>inbuf := bs\<rparr>)
          else (take (nat n) b, s\<lparr>inbuf := drop (nat n) b # bs\<rparr>))"

definition sim_write :: "sim \<Rightarrow> byte list \<Rightarrow> sim" where
  "sim_write s d = s\<lparr>outlog := outlog s @ [d]\<rparr>"

definition sim_port :: "sim transport" where
  "sim_port = \<lparr>sp_read = sim_read, sp_write = sim_write\<rparr>"

section \<open>Properties\<close>

lemmas module_constants =
  CMD_INIT_def CMD_WRITE_def CMD_READ_def CMD_TRANSACTION_def CMD_DIGITAL_WRITE_def
  MODE_I2C_MASTER_def RESPONSE_OK_def RESPONSE_ERROR_def RESPONSE_CMD_UNAVAILABLE_def
  RESPONSE_WRONG_COMMAND_def RESPONSE_BAD_PARAMETERS_def RESPONSE_SHORT_WRITE_def
  RESPONSE_NACK_ON_ADDRESS_def RESPONSE_NACK_ON_DATA_def RESPONSE_DATA_TOO_LONG_def
  RESPONSE_OTHER_ERROR_def PIN_STATUS_HIGH_def PIN_STATUS_LOW_def PIN_STATUS_TOGGLE_def

subsection \<open>The loop of \<open>_recv\<close>, one iteration at a time\<close>

lemma recv_loop_zero: "recv_loop T c 0 response expected = Some (Inr response, c)"
  by (subst recv_loop.simps) simp

lemma recv_loop_empty:
  "n \<noteq> 0 \<Longrightarrow> fst (sp_read T c n) = [] \<Longrightarrow>
   recv_loop T c n response expected =
     Some (Inl (BusError (short_response (length response) expected)), snd (sp_read T c n))"
  by (subst recv_loop.simps) (simp add: case_prod_beta)

lemma recv_loop_block:
  "n \<noteq> 0 \<Longrightarrow> fst (sp_read T c n) \<noteq> [] \<Longrightarrow>
   recv_loop T c n response expected =
     recv_loop T (snd (sp_read T c n)) (n - int (length (fst (sp_read T c n))))
       (response @ fst (sp_read T c n)) expected"
  by (subst recv_loop.simps) (simp add: case_prod_beta)

lemma recv_loop_delivers:
  "delivers T c n blocks \<Longrightarrow>
   recv_loop T c n response expected =
     Some (Inr (response @ concat blocks), after_reads T c n blocks)"
proof (induction blocks arbitrary: c n response)
  case Nil
  then show ?case by (simp add: recv_loop_zero)
next
  case (Cons b bs)
  then show ?case by (simp add: recv_loop_block)
qed

lemma recv_loop_starves:
  "starves T c n blocks \<Longrightarrow>
   recv_loop T c n response expected =
     Some (Inl (BusError (short_response (length response + length (concat blocks)) expected)),
           snd (sp_read T (after_reads T c n blocks) (n - int (length (concat blocks)))))"
proof (induction blocks arbitrary: c n response)
  case Nil
  then show ?case by (simp add: recv_loop_empty)
next
  case (Cons b bs)
  then show ?case by (simp add: recv_loop_block algebra_simps)
qed

subsection \<open>The loop under the contract of \<open>read\<close>\<close>

lemma sp_read_logged:
  "sp_read (logged T) (c, log) n = (fst (sp_read T c n), (snd (sp_read T c n), log @ [n]))"
  by (simp add: logged_def)

lemma recv_loop_logged:
  assumes "read_contract T"
  shows "0 \<le> n \<Longrightarrow>
    \<exists>r c' reqs. recv_loop T c n response expected = Some (r, c') \<and>
      recv_loop (logged T) (c, log) n response expected = Some (r, (c', log @ reqs)) \<and>
      int (length reqs) \<le> n \<and> list_all (\<lambda>m. 0 < m \<and> m \<le> n) reqs"
proof (induction "nat n" arbitrary: n c response log rule: less_induct)
  case less
  show ?case
  proof (cases "n = 0")
    case True
    then show ?thesis by (simp add: recv_loop_zero)
  next
    case nz: False
    let ?b = "fst (sp_read T c n)"
    let ?c = "snd (sp_read T c n)"
    show ?thesis
    proof (cases "?b = []")
      case True
      have "recv_loop (logged T) (c, log) n response expected =
          Some (Inl (BusError (short_response (length response) expected)), (?c, log @ [n]))"
        using nz True by (simp add: recv_loop_empty sp_read_logged)
      moreover have "recv_loop T c n response expected =
          Some (Inl (BusError (short_response (length response) expected)), ?c)"
        using nz True by (simp add: recv_loop_empty)
      moreover have "int (length [n]) \<le> n" "list_all (\<lambda>m. 0 < m \<and> m \<le> n) [n]"
        using nz less.prems by simp_all
      ultimately show ?thesis by blast
    next
      case False
      have le: "int (length ?b) \<le> n"
        using assms less.prems nz by (simp add: read_contract_def)
      have pos: "0 < int (length ?b)" using False by simp
      have "nat (n - int (length ?b)) < nat n" and ge: "0 \<le> n - int (length ?b)"
        using le pos by linarith+
      from less.hyps [OF this, of ?c "response @ ?b" "log @ [n]"]
      obtain r c' reqs where
        a: "recv_loop T ?c (n - int (length ?b)) (response @ ?b) expected = Some (r, c')" and
        b: "recv_loop (logged T) (?c, log @ [n]) (n - int (length ?b)) (response @ ?b) expected =
              Some (r, (c', (log @ [n]) @ reqs))" and
        c: "int (length reqs) \<le> n - int (length ?b)" and
        d: "list_all (\<lambda>m. 0 < m \<and> m \<le> n - int (length ?b)) reqs"
        by blast
      have "recv_loop T c n response expected = Some (r, c')"
        using nz False a by (simp add: recv_loop_block)
      moreover have "recv_loop (logged T) (c, log) n response expected =
          Some (r, (c', log @ (n # reqs)))"
        using nz False b by (simp add: recv_loop_block sp_read_logged)
      moreover have "int (length (n # reqs)) \<le> n" using c pos by (simp del: of_nat_0_less_iff)
      moreover have "list_all (\<lambda>m. 0 < m \<and> m \<le> n) (n # reqs)"
        using d nz less.prems pos by (auto simp add: list_all_iff simp del: of_nat_0_less_iff)
      ultimately show ?thesis by blast
    qed
  qed
qed

subsection \<open>Frames\<close>

lemma uint_byte_of_int: "0 \<le> x \<Longrightarrow> x \<le> 255 \<Longrightarrow> uint (word_of_int x :: byte) = x"
  by (simp add: uint_word_of_int take_bit_int_eq_self)

lemma encode_frame:
  "0 \<le> cmd_code \<Longrightarrow> cmd_code \<le> 255 \<Longrightarrow> length data \<le> 254 \<Longrightarrow>
   encode cmd_code data =
     Inr (word_of_int (int (length data) + 1) # word_of_int cmd_code # data)"
  by (simp add: encode_def pack_BB_def pack_B_def)

lemma recv_presents:
  assumes "presents T c (size0 # b # rest) blocks"
  shows "recv T c =
    Some (Inr (uint b, rest), after_reads T (snd (sp_read T c 1)) (uint size0) blocks)"
proof -
  obtain c1 where r: "sp_read T c 1 = ([size0], c1)"
    using assms by (cases "sp_read T c 1") simp
  with assms have "delivers T c1 (uint size0) blocks" and "concat blocks = b # rest"
    by simp_all
  then have "recv_loop T c1 (uint size0) [] (uint size0) =
      Some (Inr (b # rest), after_reads T c1 (uint size0) blocks)"
    by (simp add: recv_loop_delivers)
  with r show ?thesis by (simp add: recv_def)
qed

subsection \<open>Decoding a response\<close>

text \<open>
  Claim C7. When the port returns no byte for the one-byte read of the length,
  \<open>_recv\<close> raises \<open>Timeout\<close> and nothing else: no further read is made.
\<close>

theorem recv_timeout:
  "fst (sp_read T c 1) = [] \<Longrightarrow> recv T c = Some (Inl Timeout, snd (sp_read T c 1))"
  by (cases "sp_read T c 1") (simp add: recv_def)

theorem recv_timeout_witness:
  "fst (sp_read sim_port \<lparr>inbuf = [], outlog = []\<rparr> 1) = [] \<and>
   recv sim_port \<lparr>inbuf = [], outlog = []\<rparr> = Some (Inl Timeout, \<lparr>inbuf = [], outlog = []\<rparr>)"
proof -
  have h: "fst (sp_read sim_port \<lparr>inbuf = [], outlog = []\<rparr> 1) = []"
    by (simp add: sim_port_def sim_read_def)
  from recv_timeout [OF h] h show ?thesis
    by (simp add: sim_port_def sim_read_def)
qed

text \<open>
  Claim C2, as the code has it. When the port has returned the length byte and then,
  after some non-empty blocks, returns a zero-length block while bytes are still
  missing, \<open>_recv\<close> raises \<open>BusError\<close> with the message "short response; got R bytes,
  expected L", where R is the number of body bytes received so far and L the value of
  the length byte. The exception is a \<open>BusError\<close>, the class that also carries the
  failures reported by the device; the module has no separate class for it.
\<close>

theorem recv_short_response:
  assumes "sp_read T c 1 = (size0 # extra, c1)"
    and "starves T c1 (uint size0) blocks"
  shows "recv T c =
    Some (Inl (BusError (''short response; got '' @ str_nat (length (concat blocks)) @
                 '' bytes, expected '' @ str_nat (unat size0))),
          snd (sp_read T (after_reads T c1 (uint size0) blocks)
                 (uint size0 - int (length (concat blocks)))))"
proof -
  have "recv_loop T c1 (uint size0) [] (uint size0) =
      Some (Inl (BusError (short_response (length (concat blocks)) (uint size0))),
            snd (sp_read T (after_reads T c1 (uint size0) blocks)
                   (uint size0 - int (length (concat blocks)))))"
    using recv_loop_starves [OF assms(2), of "[]" "uint size0"] by simp
  moreover have "str_int (uint size0) = str_nat (unat size0)"
    by (simp add: str_int_def)
  ultimately show ?thesis
    using assms(1) by (simp add: recv_def short_response_def)
qed

theorem recv_short_response_witness:
  "sp_read sim_port \<lparr>inbuf = [[5], [1, 2], []], outlog = []\<rparr> 1 =
     ([5], \<lparr>inbuf = [[1, 2], []], outlog = []\<rparr>) \<and>
   starves sim_port \<lparr>inbuf = [[1, 2], []], outlog = []\<rparr> (uint (5 :: byte)) [[1, 2]] \<and>
   recv sim_port \<lparr>inbuf = [[5], [1, 2], []], outlog = []\<rparr> =
     Some (Inl (BusError ''short response; got 2 bytes, expected 5''),
           \<lparr>inbuf = [], outlog = []\<rparr>)"
proof -
  have h1: "sp_read sim_port \<lparr>inbuf = [[5], [1, 2], []], outlog = []\<rparr> 1 =
     ([5], \<lparr>inbuf = [[1, 2], []], outlog = []\<rparr>)"
    by (simp add: sim_port_def sim_read_def)
  have h2: "starves sim_port \<lparr>inbuf = [[1, 2], []], outlog = []\<rparr> (uint (5 :: byte)) [[1, 2]]"
    by (simp add: sim_port_def sim_read_def)
  have s: "str_nat (Suc (Suc 0)) = ''2''" "str_nat 5 = ''5''"
    by code_simp+
  from recv_short_response [OF h1 h2] h1 h2 show ?thesis
    by (simp add: sim_port_def sim_read_def s)
qed

text \<open>
  The failure is not of a kind of its own: with length byte 5 and two body bytes
  before the starvation, \<open>_recv\<close> raises a \<open>BusError\<close>, as \<open>read\<close> does for a
  NACK on the address reported by the device.
\<close>

theorem short_response_is_BusError:
  "recv sim_port \<lparr>inbuf = [[5], [1, 2], []], outlog = []\<rparr> =
     Some (Inl (BusError ''short response; got 2 bytes, expected 5''),
           \<lparr>inbuf = [], outlog = []\<rparr>) \<and>
   read sim_port \<lparr>inbuf = [[1, 6]], outlog = []\<rparr> 0x50 4 =
     Some (Inl (BusError ''nack on address''),
           \<lparr>inbuf = [], outlog = [[3, 4, 0x50, 4]]\<rparr>) \<and>
   is_BusError (BusError ''short response; got 2 bytes, expected 5'') \<and>
   is_BusError (BusError ''nack on address'')"
  by code_simp

text \<open>
  Claim C5. For a command code that fits a byte and a payload of at most 254 bytes,
  \<open>_send\<close> writes the frame \<open>[len(payload) + 1, cmd_code] + payload\<close>, and \<open>_recv\<close> on a
  port that holds this frame, however the port cuts its body into blocks, returns the
  command code and the payload.
\<close>

theorem encode_decode_roundtrip:
  assumes "0 \<le> cmd_code" and "cmd_code \<le> 255" and "length payload \<le> 254"
    and "presents T c (word_of_int (int (length payload) + 1) # word_of_int cmd_code # payload)
           blocks"
  shows "encode cmd_code payload =
           Inr (word_of_int (int (length payload) + 1) # word_of_int cmd_code # payload) \<and>
         send T c0 cmd_code payload =
           (Inr (), sp_write T c0
              (word_of_int (int (length payload) + 1) # word_of_int cmd_code # payload)) \<and>
         recv T c =
           Some (Inr (cmd_code, payload),
                 after_reads T (snd (sp_read T c 1)) (int (length payload) + 1) blocks)"
proof -
  have "uint (word_of_int (int (length payload) + 1) :: byte) = int (length payload) + 1"
    by (rule uint_byte_of_int) (use assms(3) in simp_all)
  moreover have "uint (word_of_int cmd_code :: byte) = cmd_code"
    using assms(1,2) by (rule uint_byte_of_int)
  ultimately show ?thesis
    using recv_presents [OF assms(4)] encode_frame [OF assms(1-3)] by (simp add: send_def)
qed

theorem encode_decode_roundtrip_witness:
  "(0::int) \<le> 7 \<and> (7::int) \<le> 255 \<and> length [0xAA, 0xBB, 0xCC :: byte] \<le> 254 \<and>
   presents sim_port \<lparr>inbuf = [[4, 7], [0xAA], [0xBB, 0xCC]], outlog = []\<rparr>
     (word_of_int (int (length [0xAA, 0xBB, 0xCC :: byte]) + 1) # word_of_int 7 #
        [0xAA, 0xBB, 0xCC])
     [[7], [0xAA], [0xBB, 0xCC]] \<and>
   encode 7 [0xAA, 0xBB, 0xCC] = Inr [4, 7, 0xAA, 0xBB, 0xCC] \<and>
   send sim_port \<lparr>inbuf = [], outlog = []\<rparr> 7 [0xAA, 0xBB, 0xCC] =
     (Inr (), \<lparr>inbuf = [], outlog = [[4, 7, 0xAA, 0xBB, 0xCC]]\<rparr>) \<and>
   recv sim_port \<lparr>inbuf = [[4, 7], [0xAA], [0xBB, 0xCC]], outlog = []\<rparr> =
     Some (Inr (7, [0xAA, 0xBB, 0xCC]), \<lparr>inbuf = [], outlog = []\<rparr>)"
proof -
  have h: "presents sim_port \<lparr>inbuf = [[4, 7], [0xAA], [0xBB, 0xCC]], outlog = []\<rparr>
     (word_of_int (int (length [0xAA, 0xBB, 0xCC :: byte]) + 1) # word_of_int 7 #
        [0xAA, 0xBB, 0xCC])
     [[7], [0xAA], [0xBB, 0xCC]]"
    by (simp add: sim_port_def sim_read_def)
  from encode_decode_roundtrip [OF _ _ _ h, of "\<lparr>inbuf = [], outlog = []\<rparr>"] h show ?thesis
    by (simp add: sim_port_def sim_read_def sim_write_def)
qed

subsection \<open>The I2C master session\<close>

text \<open>
  Claim C1 asks that the constructor raise \<open>ProtocolError\<close> unless the init response
  is ok with an empty payload. The test of the constructor joins its two conditions
  with \<open>and\<close>: it raises only when the status is not ok and the payload is not empty
  as well. A response ok with payload \<open>[0x01]\<close>, and a response with status error and
  no payload, both leave the constructor without an exception.
\<close>

theorem init_accepts_unexpected_response:
  "BusAdapterI2CMaster_init sim_port \<lparr>inbuf = [[2, 0, 1]], outlog = []\<rparr> =
     Some (Inr (), \<lparr>inbuf = [], outlog = [[5, 1, 1, 0, 0x90, 1]]\<rparr>) \<and>
   BusAdapterI2CMaster_init sim_port \<lparr>inbuf = [[1, 1]], outlog = []\<rparr> =
     Some (Inr (), \<lparr>inbuf = [], outlog = [[5, 1, 1, 0, 0x90, 1]]\<rparr>)"
  by code_simp

text \<open>The outcome of the constructor for any response.\<close>

lemma init_outcome:
  assumes "recv T (sp_write T c [5, 1, 1, 0, 0x90, 1]) = Some (Inr (msg_code, payload), c2)"
  shows "BusAdapterI2CMaster_init T c =
    Some (if msg_code \<noteq> RESPONSE_OK \<and> payload \<noteq> [] then Inl ProtocolError else Inr (), c2)"
  using assms
  by (simp add: BusAdapterI2CMaster_init_def pack_BBH_def pack_B_def pack_H_def send_def
      encode_def pack_BB_def module_constants)

text \<open>
  Claim C3. When the request of \<open>write\<close> has gone out and a response has come back:
  status ok with an empty payload is success; a non-empty payload, whatever the
  status, and status bad-parameters are \<open>ProtocolError\<close>; with an empty payload, each
  of nack-on-address, short-write, nack-on-data, data-too-long and other-error is a
  \<open>BusError\<close> with its message from the table.
\<close>

theorem write_outcomes:
  assumes "pack_B address = Inr a"
    and "send T c CMD_WRITE (a @ payload) = (Inr (), c1)"
    and "recv T c1 = Some (Inr (status, response), c2)"
  shows "(status = RESPONSE_OK \<and> response = [] \<longrightarrow>
            write_i2c T c address payload = Some (Inr (), c2)) \<and>
         (response \<noteq> [] \<or> status = RESPONSE_BAD_PARAMETERS \<longrightarrow>
            write_i2c T c address payload = Some (Inl ProtocolError, c2)) \<and>
         (response = [] \<longrightarrow>
            (status = RESPONSE_NACK_ON_ADDRESS \<longrightarrow>
               write_i2c T c address payload = Some (Inl (BusError ''nack on address''), c2)) \<and>
            (status = RESPONSE_SHORT_WRITE \<longrightarrow>
               write_i2c T c address payload = Some (Inl (BusError ''short write''), c2)) \<and>
            (status = RESPONSE_NACK_ON_DATA \<longrightarrow>
               write_i2c T c address payload = Some (Inl (BusError ''nack on data''), c2)) \<and>
            (status = RESPONSE_DATA_TOO_LONG \<longrightarrow>
               write_i2c T c address payload =
                 Some (Inl (BusError ''data too long for transmit buffer''), c2)) \<and>
            (status = RESPONSE_OTHER_ERROR \<longrightarrow>
               write_i2c T c address payload = Some (Inl (BusError ''other error''), c2)))"
  using assms
  by (simp add: write_i2c_def bus_error_messages_def module_constants)

theorem write_outcomes_witness:
  "pack_B 0x50 = Inr [0x50] \<and>
   send sim_port \<lparr>inbuf = [[1, 0]], outlog = []\<rparr> CMD_WRITE ([0x50] @ [1, 2]) =
     (Inr (), \<lparr>inbuf = [[1, 0]], outlog = [[4, 3, 0x50, 1, 2]]\<rparr>) \<and>
   recv sim_port \<lparr>inbuf = [[1, 0]], outlog = [[4, 3, 0x50, 1, 2]]\<rparr> =
     Some (Inr (RESPONSE_OK, []), \<lparr>inbuf = [], outlog = [[4, 3, 0x50, 1, 2]]\<rparr>) \<and>
   write_i2c sim_port \<lparr>inbuf = [[1, 0]], outlog = []\<rparr> 0x50 [1, 2] =
     Some (Inr (), \<lparr>inbuf = [], outlog = [[4, 3, 0x50, 1, 2]]\<rparr>) \<and>
   send sim_port \<lparr>inbuf = [[1, 6]], outlog = []\<rparr> CMD_WRITE ([0x50] @ [1, 2]) =
     (Inr (), \<lparr>inbuf = [[1, 6]], outlog = [[4, 3, 0x50, 1, 2]]\<rparr>) \<and>
   recv sim_port \<lparr>inbuf = [[1, 6]], outlog = [[4, 3, 0x50, 1, 2]]\<rparr> =
     Some (Inr (RESPONSE_NACK_ON_ADDRESS, []), \<lparr>inbuf = [], outlog = [[4, 3, 0x50, 1, 2]]\<rparr>) \<and>
   write_i2c sim_port \<lparr>inbuf = [[1, 6]], outlog = []\<rparr> 0x50 [1, 2] =
     Some (Inl (BusError ''nack on address''), \<lparr>inbuf = [], outlog = [[4, 3, 0x50, 1, 2]]\<rparr>) \<and>
   send sim_port \<lparr>inbuf = [[2, 0, 0xFF]], outlog = []\<rparr> CMD_WRITE ([0x50] @ [1, 2]) =
     (Inr (), \<lparr>inbuf = [[2, 0, 0xFF]], outlog = [[4, 3, 0x50, 1, 2]]\<rparr>) \<and>
   recv sim_port \<lparr>inbuf = [[2, 0, 0xFF]], outlog = [[4, 3, 0x50, 1, 2]]\<rparr> =
     Some (Inr (RESPONSE_OK, [0xFF]), \<lparr>inbuf = [], outlog = [[4, 3, 0x50, 1, 2]]\<rparr>) \<and>
   write_i2c sim_port \<lparr>inbuf = [[2, 0, 0xFF]], outlog = []\<rparr> 0x50 [1, 2] =
     Some (Inl ProtocolError, \<lparr>inbuf = [], outlog = [[4, 3, 0x50, 1, 2]]\<rparr>)"
proof -
  have p: "pack_B 0x50 = Inr [0x50]"
    by (simp add: pack_B_def)
  have s1: "send sim_port \<lparr>inbuf = [[1, 0]], outlog = []\<rparr> CMD_WRITE ([0x50] @ [1, 2]) =
     (Inr (), \<lparr>inbuf = [[1, 0]], outlog = [[4, 3, 0x50, 1, 2]]\<rparr>)"
    by code_simp
  have r1: "recv sim_port \<lparr>inbuf = [[1, 0]], outlog = [[4, 3, 0x50, 1, 2]]\<rparr> =
     Some (Inr (RESPONSE_OK, []), \<lparr>inbuf = [], outlog = [[4, 3, 0x50, 1, 2]]\<rparr>)"
    by code_simp
  have s2: "send sim_port \<lparr>inbuf = [[1, 6]], outlog = []\<rparr> CMD_WRITE ([0x50] @ [1, 2]) =
     (Inr (), \<lparr>inbuf = [[1, 6]], outlog = [[4, 3, 0x50, 1, 2]]\<rparr>)"
    by code_simp
  have r2: "recv sim_port \<lparr>inbuf = [[1, 6]], outlog = [[4, 3, 0x50, 1, 2]]\<rparr> =
     Some (Inr (RESPONSE_NACK_ON_ADDRESS, []), \<lparr>inbuf = [], outlog = [[4, 3, 0x50, 1, 2]]\<rparr>)"
    by code_simp
  have s3: "send sim_port \<lparr>inbuf = [[2, 0, 0xFF]], outlog = []\<rparr> CMD_WRITE ([0x50] @ [1, 2]) =
     (Inr (), \<lparr>inbuf = [[2, 0, 0xFF]], outlog = [[4, 3, 0x50, 1, 2]]\<rparr>)"
    by code_simp
  have r3: "recv sim_port \<lparr>inbuf = [[2, 0, 0xFF]], outlog = [[4, 3, 0x50, 1, 2]]\<rparr> =
     Some (Inr (RESPONSE_OK, [0xFF]), \<lparr>inbuf = [], outlog = [[4, 3, 0x50, 1, 2]]\<rparr>)"
    by code_simp
  show ?thesis
    using write_outcomes [OF p s1 r1] write_outcomes [OF p s2 r2] write_outcomes [OF p s3 r3]
      p s1 r1 s2 r2 s3 r3
    by simp
qed

text \<open>
  Claim C4. When \<open>read\<close> receives status ok, it returns the payload as it is if its
  length is \<open>read_size\<close>, and raises \<open>BusError\<close> with the message "short read" for any
  other length.
\<close>

theorem read_ok_length:
  assumes "pack_BB address read_size = Inr data"
    and "send T c CMD_READ data = (Inr (), c1)"
    and "recv T c1 = Some (Inr (RESPONSE_OK, response), c2)"
  shows "read T c address read_size =
    Some (if int (length response) = read_size then Inr response
          else Inl (BusError ''short read''), c2)"
  using assms by (simp add: read_def module_constants)

theorem read_ok_length_witness:
  "pack_BB 0x50 4 = Inr [0x50, 4] \<and>
   send sim_port \<lparr>inbuf = [[4, 0, 1, 2, 3]], outlog = []\<rparr> CMD_READ [0x50, 4] =
     (Inr (), \<lparr>inbuf = [[4, 0, 1, 2, 3]], outlog = [[3, 4, 0x50, 4]]\<rparr>) \<and>
   recv sim_port \<lparr>inbuf = [[4, 0, 1, 2, 3]], outlog = [[3, 4, 0x50, 4]]\<rparr> =
     Some (Inr (RESPONSE_OK, [1, 2, 3]), \<lparr>inbuf = [], outlog = [[3, 4, 0x50, 4]]\<rparr>) \<and>
   read sim_port \<lparr>inbuf = [[4, 0, 1, 2, 3]], outlog = []\<rparr> 0x50 4 =
     Some (Inl (BusError ''short read''), \<lparr>inbuf = [], outlog = [[3, 4, 0x50, 4]]\<rparr>) \<and>
   send sim_port \<lparr>inbuf = [[5, 0, 1, 2, 3, 4]], outlog = []\<rparr> CMD_READ [0x50, 4] =
     (Inr (), \<lparr>inbuf = [[5, 0, 1, 2, 3, 4]], outlog = [[3, 4, 0x50, 4]]\<rparr>) \<and>
   recv sim_port \<lparr>inbuf = [[5, 0, 1, 2, 3, 4]], outlog = [[3, 4, 0x50, 4]]\<rparr> =
     Some (Inr (RESPONSE_OK, [1, 2, 3, 4]), \<lparr>inbuf = [], outlog = [[3, 4, 0x50, 4]]\<rparr>) \<and>
   read sim_port \<lparr>inbuf = [[5, 0, 1, 2, 3, 4]], outlog = []\<rparr> 0x50 4 =
     Some (Inr [1, 2, 3, 4], \<lparr>inbuf = [], outlog = [[3, 4, 0x50, 4]]\<rparr>)"
proof -
  have p: "pack_BB 0x50 4 = Inr [0x50, 4]"
    by (simp add: pack_BB_def pack_B_def)
  have s1: "send sim_port \<lparr>inbuf = [[4, 0, 1, 2, 3]], outlog = []\<rparr> CMD_READ [0x50, 4] =
     (Inr (), \<lparr>inbuf = [[4, 0, 1, 2, 3]], outlog = [[3, 4, 0x50, 4]]\<rparr>)"
    by code_simp
  have r1: "recv sim_port \<lparr>inbuf = [[4, 0, 1, 2, 3]], outlog = [[3, 4, 0x50, 4]]\<rparr> =
     Some (Inr (RESPONSE_OK, [1, 2, 3]), \<lparr>inbuf = [], outlog = [[3, 4, 0x50, 4]]\<rparr>)"
    by code_simp
  have s2: "send sim_port \<lparr>inbuf = [[5, 0, 1, 2, 3, 4]], outlog = []\<rparr> CMD_READ [0x50, 4] =
     (Inr (), \<lparr>inbuf = [[5, 0, 1, 2, 3, 4]], outlog = [[3, 4, 0x50, 4]]\<rparr>)"
    by code_simp
  have r2: "recv sim_port \<lparr>inbuf = [[5, 0, 1, 2, 3, 4]], outlog = [[3, 4, 0x50, 4]]\<rparr> =
     Some (Inr (RESPONSE_OK, [1, 2, 3, 4]), \<lparr>inbuf = [], outlog = [[3, 4, 0x50, 4]]\<rparr>)"
    by code_simp
  show ?thesis
    using read_ok_length [OF p s1 r1] read_ok_length [OF p s2 r2] p s1 r1 s2 r2
    by simp
qed

lemma bytes_in_range:
  "list_all (\<lambda>x. 0 \<le> x \<and> x \<le> 255) xs \<Longrightarrow> bytes xs = Inr (map word_of_int xs)"
  by (simp add: bytes_def)

text \<open>
  Claim C6. \<open>transaction\<close> with an empty payload raises \<open>ValueError\<close> and leaves the
  port as it was: nothing is written and nothing is read. With a payload of at least
  one byte (and arguments that \<open>pack\<close> and \<open>bytes\<close> accept), the port ends in the state
  reached by writing one frame and receiving one response, and that frame is the
  length, the command code 5, the address, \<open>read_size\<close>, then the payload.
\<close>

theorem transaction_requires_payload:
  "transaction T c address [] read_size =
     Some (Inl (ValueError ''at least one byte of payload is required'' []), c) \<and>
   (payload \<noteq> [] \<and> length payload \<le> 252 \<and> list_all (\<lambda>x. 0 \<le> x \<and> x \<le> 255) payload \<and>
    0 \<le> address \<and> address \<le> 255 \<and> 0 \<le> read_size \<and> read_size \<le> 255 \<longrightarrow>
    map_option snd (transaction T c address payload read_size) =
    map_option snd
      (recv T (sp_write T c
         (word_of_int (int (length payload) + 3) # 5 # word_of_int address #
          word_of_int read_size # map word_of_int payload))))"
proof (intro conjI impI)
  show "transaction T c address [] read_size =
     Some (Inl (ValueError ''at least one byte of payload is required'' []), c)"
    by (simp add: transaction_def)
next
  assume a: "payload \<noteq> [] \<and> length payload \<le> 252 \<and>
    list_all (\<lambda>x. 0 \<le> x \<and> x \<le> 255) payload \<and>
    0 \<le> address \<and> address \<le> 255 \<and> 0 \<le> read_size \<and> read_size \<le> 255"
  let ?data = "word_of_int address # word_of_int read_size # map word_of_int payload :: byte list"
  have d: "pack_cat (pack_BB address read_size) (bytes payload) = Inr ?data"
    using a by (simp add: pack_BB_def pack_B_def bytes_in_range)
  have "encode CMD_TRANSACTION ?data =
      Inr (word_of_int (int (length payload) + 3) # 5 # ?data)"
    using a by (simp add: encode_def pack_BB_def pack_B_def CMD_TRANSACTION_def)
  then have s: "send T c CMD_TRANSACTION ?data =
      (Inr (), sp_write T c (word_of_int (int (length payload) + 3) # 5 # ?data))"
    by (simp add: send_def)
  have "\<not> length payload < 1" using a by simp
  with d s show "map_option snd (transaction T c address payload read_size) =
    map_option snd
      (recv T (sp_write T c
         (word_of_int (int (length payload) + 3) # 5 # word_of_int address #
          word_of_int read_size # map word_of_int payload)))"
    by (simp add: transaction_def split: option.split sum.split prod.split)
qed

theorem transaction_requires_payload_witness:
  "([1, 2 :: int] \<noteq> [] \<and> length [1, 2 :: int] \<le> 252 \<and>
    list_all (\<lambda>x. 0 \<le> x \<and> x \<le> 255) [1, 2 :: int] \<and>
    (0::int) \<le> 0x50 \<and> (0x50::int) \<le> 255 \<and> (0::int) \<le> 1 \<and> (1::int) \<le> 255) \<and>
   transaction sim_port \<lparr>inbuf = [[2, 0, 9]], outlog = []\<rparr> 0x50 [] 1 =
     Some (Inl (ValueError ''at least one byte of payload is required'' []),
           \<lparr>inbuf = [[2, 0, 9]], outlog = []\<rparr>) \<and>
   map_option snd (transaction sim_port \<lparr>inbuf = [[2, 0, 9]], outlog = []\<rparr> 0x50 [1, 2] 1) =
     Some \<lparr>inbuf = [], outlog = [[5, 5, 0x50, 1, 1, 2]]\<rparr>"
proof -
  have r: "recv sim_port (sp_write sim_port \<lparr>inbuf = [[2, 0, 9]], outlog = []\<rparr>
             [5, 5, 0x50, 1, 1, 2]) =
           Some (Inr (0, [9]), \<lparr>inbuf = [], outlog = [[5, 5, 0x50, 1, 1, 2]]\<rparr>)"
    by code_simp
  show ?thesis
    using transaction_requires_payload
      [of sim_port "\<lparr>inbuf = [[2, 0, 9]], outlog = []\<rparr>" "0x50" 1 "[1, 2]"] r
    by simp
qed

subsection \<open>\<open>digital_write\<close>\<close>

lemma digital_write_frame:
  assumes "py_getitem pin_status_table status = Some code"
    and "0 \<le> code" and "code \<le> 255" and "0 \<le> pin_number" and "pin_number \<le> 255"
  shows "map_option snd (digital_write T c pin_number status) =
    map_option snd (recv T (sp_write T c [3, 8, word_of_int pin_number, word_of_int code]))"
proof -
  have "pack_BB pin_number code = Inr [word_of_int pin_number, word_of_int code]"
    using assms by (simp add: pack_BB_def pack_B_def)
  moreover have "send T c CMD_DIGITAL_WRITE [word_of_int pin_number, word_of_int code] =
      (Inr (), sp_write T c [3, 8, word_of_int pin_number, word_of_int code])"
    by (simp add: send_def encode_def pack_BB_def pack_B_def CMD_DIGITAL_WRITE_def)
  ultimately show ?thesis
    using assms(1) by (simp add: digital_write_def split: option.split sum.split prod.split)
qed

lemma pin_status_unknown:
  assumes "status \<notin> {PyStr ''high'', PyStr ''low'', PyStr ''toggle'', PyBool True, PyBool False,
                      PyInt 0, PyInt 1, PyInt 0x10, PyInt 0x11}"
  shows "py_getitem pin_status_table status = None"
proof (cases status)
  case (PyStr s)
  with assms show ?thesis by (auto simp: pin_status_table_def)
next
  case (PyBool b)
  with assms show ?thesis by (cases b) simp_all
next
  case (PyInt i)
  with assms show ?thesis by (simp add: pin_status_table_def module_constants)
qed

text \<open>
  Claim C8, as the code has it. The status is looked up in a dictionary whose keys
  are \<open>'high'\<close>, \<open>'low'\<close>, \<open>True\<close>, \<open>False\<close>, \<open>0x10\<close>, \<open>0x11\<close> and \<open>'toggle'\<close>. Since
  \<open>True == 1\<close> and \<open>False == 0\<close> in Python, the integers 1 and 0 find the boolean keys.
  So \<open>'high'\<close>, \<open>True\<close>, 1 and \<open>0x10\<close> send the code \<open>0x10\<close>; \<open>'low'\<close>, \<open>False\<close>, 0 and
  \<open>0x11\<close> send \<open>0x11\<close>; \<open>'toggle'\<close> sends \<open>0x12\<close>; what is sent is the frame
  \<open>[3, 8, pin_number, code]\<close>, followed by one \<open>_recv\<close>. Every other string, boolean or
  integer, the raw code \<open>0x12\<close> set aside, raises \<open>ValueError\<close> and leaves the port as it
  was.
\<close>

theorem digital_write_status:
  "(0 \<le> pin_number \<and> pin_number \<le> 255 \<longrightarrow>
      (status \<in> {PyStr ''high'', PyBool True, PyInt 1, PyInt 0x10} \<longrightarrow>
         map_option snd (digital_write T c pin_number status) =
         map_option snd (recv T (sp_write T c [3, 8, word_of_int pin_number, 0x10]))) \<and>
      (status \<in> {PyStr ''low'', PyBool False, PyInt 0, PyInt 0x11} \<longrightarrow>
         map_option snd (digital_write T c pin_number status) =
         map_option snd (recv T (sp_write T c [3, 8, word_of_int pin_number, 0x11]))) \<and>
      (status = PyStr ''toggle'' \<longrightarrow>
         map_option snd (digital_write T c pin_number status) =
         map_option snd (recv T (sp_write T c [3, 8, word_of_int pin_number, 0x12])))) \<and>
   (status \<notin> {PyStr ''high'', PyStr ''low'', PyStr ''toggle'', PyBool True, PyBool False,
               PyInt 0, PyInt 1, PyInt 0x10, PyInt 0x11, PyInt 0x12} \<longrightarrow>
      digital_write T c pin_number status =
        Some (Inl (ValueError ''wrong pin status {!r}'' [status]), c))"
proof (intro conjI impI)
  assume "status \<notin> {PyStr ''high'', PyStr ''low'', PyStr ''toggle'', PyBool True, PyBool False,
               PyInt 0, PyInt 1, PyInt 0x10, PyInt 0x11, PyInt 0x12}"
  then have "py_getitem pin_status_table status = None"
    by (intro pin_status_unknown) simp
  then show "digital_write T c pin_number status =
        Some (Inl (ValueError ''wrong pin status {!r}'' [status]), c)"
    by (simp add: digital_write_def)
next
  assume p: "0 \<le> pin_number \<and> pin_number \<le> 255"
    and "status \<in> {PyStr ''high'', PyBool True, PyInt 1, PyInt 0x10}"
  then have "py_getitem pin_status_table status = Some 0x10"
    by (auto simp: pin_status_table_def module_constants)
  from digital_write_frame [where pin_number = pin_number and T = T and c = c, OF this] p
  show "map_option snd (digital_write T c pin_number status) =
         map_option snd (recv T (sp_write T c [3, 8, word_of_int pin_number, 0x10]))"
    by simp
next
  assume p: "0 \<le> pin_number \<and> pin_number \<le> 255"
    and "status \<in> {PyStr ''low'', PyBool False, PyInt 0, PyInt 0x11}"
  then have "py_getitem pin_status_table status = Some 0x11"
    by (auto simp: pin_status_table_def module_constants)
  from digital_write_frame [where pin_number = pin_number and T = T and c = c, OF this] p
  show "map_option snd (digital_write T c pin_number status) =
         map_option snd (recv T (sp_write T c [3, 8, word_of_int pin_number, 0x11]))"
    by simp
next
  assume p: "0 \<le> pin_number \<and> pin_number \<le> 255"
    and "status = PyStr ''toggle''"
  then have "py_getitem pin_status_table status = Some 0x12"
    by (auto simp: pin_status_table_def module_constants)
  from digital_write_frame [where pin_number = pin_number and T = T and c = c, OF this] p
  show "map_option snd (digital_write T c pin_number status) =
         map_option snd (recv T (sp_write T c [3, 8, word_of_int pin_number, 0x12]))"
    by simp
qed

theorem digital_write_status_witness:
  "((0::int) \<le> 3 \<and> (3::int) \<le> 255) \<and>
   map_option snd (digital_write sim_port \<lparr>inbuf = [[1, 0]], outlog = []\<rparr> 3 (PyStr ''toggle'')) =
     Some \<lparr>inbuf = [], outlog = [[3, 8, 3, 0x12]]\<rparr> \<and>
   map_option snd (digital_write sim_port \<lparr>inbuf = [[1, 0]], outlog = []\<rparr> 3 (PyBool True)) =
     Some \<lparr>inbuf = [], outlog = [[3, 8, 3, 0x10]]\<rparr> \<and>
   map_option snd (digital_write sim_port \<lparr>inbuf = [[1, 0]], outlog = []\<rparr> 3 (PyInt 0x11)) =
     Some \<lparr>inbuf = [], outlog = [[3, 8, 3, 0x11]]\<rparr> \<and>
   PyStr ''blink'' \<notin> {PyStr ''high'', PyStr ''low'', PyStr ''toggle'', PyBool True, PyBool False,
               PyInt 0, PyInt 1, PyInt 0x10, PyInt 0x11, PyInt 0x12} \<and>
   digital_write sim_port \<lparr>inbuf = [[1, 0]], outlog = []\<rparr> 3 (PyStr ''blink'') =
     Some (Inl (ValueError ''wrong pin status {!r}'' [PyStr ''blink'']),
           \<lparr>inbuf = [[1, 0]], outlog = []\<rparr>)"
proof -
  have r: "recv sim_port (sp_write sim_port \<lparr>inbuf = [[1, 0]], outlog = []\<rparr> [3, 8, 3, 0x12]) =
             Some (Inr (0, []), \<lparr>inbuf = [], outlog = [[3, 8, 3, 0x12]]\<rparr>)"
           "recv sim_port (sp_write sim_port \<lparr>inbuf = [[1, 0]], outlog = []\<rparr> [3, 8, 3, 0x10]) =
             Some (Inr (0, []), \<lparr>inbuf = [], outlog = [[3, 8, 3, 0x10]]\<rparr>)"
           "recv sim_port (sp_write sim_port \<lparr>inbuf = [[1, 0]], outlog = []\<rparr> [3, 8, 3, 0x11]) =
             Some (Inr (0, []), \<lparr>inbuf = [], outlog = [[3, 8, 3, 0x11]]\<rparr>)"
    by code_simp+
  show ?thesis
    using digital_write_status [of 3 "PyStr ''toggle''" sim_port "\<lparr>inbuf = [[1, 0]], outlog = []\<rparr>"]
      digital_write_status [of 3 "PyBool True" sim_port "\<lparr>inbuf = [[1, 0]], outlog = []\<rparr>"]
      digital_write_status [of 3 "PyInt 0x11" sim_port "\<lparr>inbuf = [[1, 0]], outlog = []\<rparr>"]
      digital_write_status [of 3 "PyStr ''blink''" sim_port "\<lparr>inbuf = [[1, 0]], outlog = []\<rparr>"]
      r
    by simp
qed

text \<open>
  A value outside the set of the claim that does not raise: the integer 1 is sent as
  high.
\<close>

theorem digital_write_accepts_one:
  "digital_write sim_port \<lparr>inbuf = [[1, 0]], outlog = []\<rparr> 3 (PyInt 1) =
     Some (Inr (), \<lparr>inbuf = [], outlog = [[3, 8, 3, 0x10]]\<rparr>) \<and>
   PyInt 1 \<notin> {PyStr ''high'', PyStr ''low'', PyStr ''toggle'', PyBool True, PyBool False,
               PyInt 0x10, PyInt 0x11, PyInt 0x12}"
  by code_simp

text \<open>
  The dictionary has the raw codes of high and low among its keys but not the raw code
  of toggle, \<open>PIN_STATUS_TOGGLE\<close>: passing it raises \<open>ValueError\<close>.
\<close>

lemma digital_write_raw_toggle:
  "digital_write sim_port \<lparr>inbuf = [[1, 0]], outlog = []\<rparr> 3 (PyInt PIN_STATUS_TOGGLE) =
     Some (Inl (ValueError ''wrong pin status {!r}'' [PyInt 0x12]),
           \<lparr>inbuf = [[1, 0]], outlog = []\<rparr>)"
  by code_simp

subsection \<open>Status codes without a message\<close>

lemma BusError_init_unmapped:
  assumes "status \<notin> {RESPONSE_SHORT_WRITE, RESPONSE_NACK_ON_ADDRESS, RESPONSE_NACK_ON_DATA,
                      RESPONSE_DATA_TOO_LONG, RESPONSE_OTHER_ERROR}"
  shows "BusError_init (PyInt status) = KeyError (PyInt status)"
  using assms by (simp add: bus_error_messages_def)

text \<open>
  Claim C9, as the code has it. A response status that is not ok, not bad-parameters
  and not a key of the message table (error, command-unavailable, wrong-command, and
  any code above 9) makes \<open>BusError.__init__\<close> fail with \<open>KeyError\<close>, and that is what
  the caller receives: from \<open>read\<close> and \<open>transaction\<close> with any response payload, from
  \<open>write\<close> when the response payload is empty.
\<close>

theorem unmapped_status_key_error:
  assumes "status \<notin> {RESPONSE_OK, RESPONSE_BAD_PARAMETERS, RESPONSE_SHORT_WRITE,
                      RESPONSE_NACK_ON_ADDRESS, RESPONSE_NACK_ON_DATA, RESPONSE_DATA_TOO_LONG,
                      RESPONSE_OTHER_ERROR}"
  shows "(pack_B address = Inr a \<and> send T c CMD_WRITE (a @ payload) = (Inr (), c1) \<and>
          recv T c1 = Some (Inr (status, []), c2) \<longrightarrow>
            write_i2c T c address payload = Some (Inl (KeyError (PyInt status)), c2)) \<and>
         (pack_BB address read_size = Inr data \<and> send T c CMD_READ data = (Inr (), c1) \<and>
          recv T c1 = Some (Inr (status, response), c2) \<longrightarrow>
            read T c address read_size = Some (Inl (KeyError (PyInt status)), c2)) \<and>
         (wdata \<noteq> [] \<and> pack_cat (pack_BB address read_size) (bytes wdata) = Inr data \<and>
          send T c CMD_TRANSACTION data = (Inr (), c1) \<and>
          recv T c1 = Some (Inr (status, response), c2) \<longrightarrow>
            transaction T c address wdata read_size = Some (Inl (KeyError (PyInt status)), c2))"
proof -
  have k: "BusError_init (PyInt status) = KeyError (PyInt status)"
    using assms by (intro BusError_init_unmapped) simp
  have n: "status \<noteq> RESPONSE_OK" "status \<noteq> RESPONSE_BAD_PARAMETERS"
    using assms by simp_all
  show ?thesis
    using k n by (auto simp: write_i2c_def read_def transaction_def)
qed

theorem unmapped_status_key_error_witness:
  "(1::int) \<notin> {RESPONSE_OK, RESPONSE_BAD_PARAMETERS, RESPONSE_SHORT_WRITE,
                RESPONSE_NACK_ON_ADDRESS, RESPONSE_NACK_ON_DATA, RESPONSE_DATA_TOO_LONG,
                RESPONSE_OTHER_ERROR} \<and>
   write_i2c sim_port \<lparr>inbuf = [[1, 1]], outlog = []\<rparr> 0x50 [1, 2] =
     Some (Inl (KeyError (PyInt 1)), \<lparr>inbuf = [], outlog = [[4, 3, 0x50, 1, 2]]\<rparr>) \<and>
   read sim_port \<lparr>inbuf = [[3, 1, 7, 7]], outlog = []\<rparr> 0x50 2 =
     Some (Inl (KeyError (PyInt 1)), \<lparr>inbuf = [], outlog = [[3, 4, 0x50, 2]]\<rparr>) \<and>
   transaction sim_port \<lparr>inbuf = [[1, 1]], outlog = []\<rparr> 0x50 [9] 2 =
     Some (Inl (KeyError (PyInt 1)), \<lparr>inbuf = [], outlog = [[4, 5, 0x50, 2, 9]]\<rparr>)"
proof -
  have h: "(1::int) \<notin> {RESPONSE_OK, RESPONSE_BAD_PARAMETERS, RESPONSE_SHORT_WRITE,
                RESPONSE_NACK_ON_ADDRESS, RESPONSE_NACK_ON_DATA, RESPONSE_DATA_TOO_LONG,
                RESPONSE_OTHER_ERROR}"
    by (simp add: module_constants)
  have w: "pack_B 0x50 = Inr [0x50]"
    "send sim_port \<lparr>inbuf = [[1, 1]], outlog = []\<rparr> CMD_WRITE ([0x50] @ [1, 2]) =
       (Inr (), \<lparr>inbuf = [[1, 1]], outlog = [[4, 3, 0x50, 1, 2]]\<rparr>)"
    "recv sim_port \<lparr>inbuf = [[1, 1]], outlog = [[4, 3, 0x50, 1, 2]]\<rparr> =
       Some (Inr (1, []), \<lparr>inbuf = [], outlog = [[4, 3, 0x50, 1, 2]]\<rparr>)"
    by code_simp+
  have r: "pack_BB 0x50 2 = Inr [0x50, 2]"
    "send sim_port \<lparr>inbuf = [[3, 1, 7, 7]], outlog = []\<rparr> CMD_READ [0x50, 2] =
       (Inr (), \<lparr>inbuf = [[3, 1, 7, 7]], outlog = [[3, 4, 0x50, 2]]\<rparr>)"
    "recv sim_port \<lparr>inbuf = [[3, 1, 7, 7]], outlog = [[3, 4, 0x50, 2]]\<rparr> =
       Some (Inr (1, [7, 7]), \<lparr>inbuf = [], outlog = [[3, 4, 0x50, 2]]\<rparr>)"
    by code_simp+
  have t: "[9 :: int] \<noteq> []"
    "pack_cat (pack_BB 0x50 2) (bytes [9]) = Inr [0x50, 2, 9]"
    "send sim_port \<lparr>inbuf = [[1, 1]], outlog = []\<rparr> CMD_TRANSACTION [0x50, 2, 9] =
       (Inr (), \<lparr>inbuf = [[1, 1]], outlog = [[4, 5, 0x50, 2, 9]]\<rparr>)"
    "recv sim_port \<lparr>inbuf = [[1, 1]], outlog = [[4, 5, 0x50, 2, 9]]\<rparr> =
       Some (Inr (1, []), \<lparr>inbuf = [], outlog = [[4, 5, 0x50, 2, 9]]\<rparr>)"
    by code_simp+
  show ?thesis
    using h w r t
      unmapped_status_key_error [OF h, where address = "0x50" and a = "[0x50]" and T = sim_port
        and c = "\<lparr>inbuf = [[1, 1]], outlog = []\<rparr>" and payload = "[1, 2]"
        and ?c1.0 = "\<lparr>inbuf = [[1, 1]], outlog = [[4, 3, 0x50, 1, 2]]\<rparr>"
        and ?c2.0 = "\<lparr>inbuf = [], outlog = [[4, 3, 0x50, 1, 2]]\<rparr>"]
      unmapped_status_key_error [OF h, where address = "0x50" and read_size = 2
        and data = "[0x50, 2]" and T = sim_port
        and c = "\<lparr>inbuf = [[3, 1, 7, 7]], outlog = []\<rparr>" and response = "[7, 7]"
        and ?c1.0 = "\<lparr>inbuf = [[3, 1, 7, 7]], outlog = [[3, 4, 0x50, 2]]\<rparr>"
        and ?c2.0 = "\<lparr>inbuf = [], outlog = [[3, 4, 0x50, 2]]\<rparr>"]
      unmapped_status_key_error [OF h, where address = "0x50" and read_size = 2
        and wdata = "[9]" and data = "[0x50, 2, 9]" and T = sim_port
        and c = "\<lparr>inbuf = [[1, 1]], outlog = []\<rparr>" and response = "[]"
        and ?c1.0 = "\<lparr>inbuf = [[1, 1]], outlog = [[4, 5, 0x50, 2, 9]]\<rparr>"
        and ?c2.0 = "\<lparr>inbuf = [], outlog = [[4, 5, 0x50, 2, 9]]\<rparr>"]
    by simp
qed

text \<open>
  \<open>write\<close> tests the response payload before the status: a response with status error
  and the payload \<open>[0xFF]\<close> raises \<open>ProtocolError\<close>, and no bus error is constructed.
\<close>

theorem write_unmapped_status_with_payload:
  "write_i2c sim_port \<lparr>inbuf = [[2, 1, 0xFF]], outlog = []\<rparr> 0x50 [1, 2] =
     Some (Inl ProtocolError, \<lparr>inbuf = [], outlog = [[4, 3, 0x50, 1, 2]]\<rparr>) \<and>
   recv sim_port \<lparr>inbuf = [[2, 1, 0xFF]], outlog = [[4, 3, 0x50, 1, 2]]\<rparr> =
     Some (Inr (RESPONSE_ERROR, [0xFF]), \<lparr>inbuf = [], outlog = [[4, 3, 0x50, 1, 2]]\<rparr>)"
  by code_simp

subsection \<open>Termination of the loop of \<open>_recv\<close>\<close>

lemma sim_read_contract: "read_contract sim_port"
  by (auto simp: read_contract_def sim_port_def sim_read_def split: list.split)

lemma delivers_logged:
  "delivers (logged T) (c, log) n blocks = delivers T c n blocks"
  by (induction blocks arbitrary: c log n) (simp_all add: sp_read_logged)

lemma starves_logged:
  "starves (logged T) (c, log) n blocks = starves T c n blocks"
  by (induction blocks arbitrary: c log n) (simp_all add: sp_read_logged)

lemma after_reads_logged:
  "after_reads (logged T) (c, log) n blocks = (after_reads T c n blocks, log @ remaining n blocks)"
  by (induction blocks arbitrary: c log n) (simp_all add: sp_read_logged)

lemma delivers_length: "delivers T c n blocks \<Longrightarrow> int (length (concat blocks)) = n"
  by (induction blocks arbitrary: c n) auto

lemma delivers_remaining:
  "delivers T c n blocks \<Longrightarrow>
   int (length (remaining n blocks)) \<le> n \<and> list_all (\<lambda>m. 0 < m \<and> m \<le> n) (remaining n blocks)"
proof (induction blocks arbitrary: c n)
  case Nil
  then show ?case by simp
next
  case (Cons b bs)
  let ?n' = "n - int (length b)"
  from Cons.prems have d: "delivers T (snd (sp_read T c n)) ?n' bs" and b: "b \<noteq> []"
    by simp_all
  from delivers_length [OF d] have ge: "0 \<le> ?n'" by linarith
  have pos: "0 < int (length b)" using b by simp
  from Cons.IH [OF d] have l: "int (length (remaining ?n' bs)) \<le> ?n'"
    and a: "list_all (\<lambda>m. 0 < m \<and> m \<le> ?n') (remaining ?n' bs)" by simp_all
  have "list_all (\<lambda>m. 0 < m \<and> m \<le> n) (remaining ?n' bs)"
    using a pos by (auto simp add: list_all_iff simp del: of_nat_0_less_iff)
  moreover have "0 < n" using ge pos by linarith
  moreover have "int (length (remaining n (b # bs))) \<le> n"
    using l pos by (simp del: of_nat_0_less_iff)
  ultimately show ?case by simp
qed

lemma starves_remaining:
  "starves T c n blocks \<Longrightarrow> int (length (concat blocks)) < n \<Longrightarrow>
   int (length (remaining n blocks @ [n - int (length (concat blocks))])) \<le> n \<and>
   list_all (\<lambda>m. 0 < m \<and> m \<le> n) (remaining n blocks @ [n - int (length (concat blocks))])"
proof (induction blocks arbitrary: c n)
  case Nil
  then show ?case by simp
next
  case (Cons b bs)
  let ?n' = "n - int (length b)"
  from Cons.prems have s: "starves T (snd (sp_read T c n)) ?n' bs" and b: "b \<noteq> []"
    and lt: "int (length (concat bs)) < ?n'"
    by simp_all
  have pos: "0 < int (length b)" using b by simp
  from Cons.IH [OF s lt]
  have l: "int (length (remaining ?n' bs @ [?n' - int (length (concat bs))])) \<le> ?n'"
    and a: "list_all (\<lambda>m. 0 < m \<and> m \<le> ?n')
              (remaining ?n' bs @ [?n' - int (length (concat bs))])"
    by simp_all
  have "list_all (\<lambda>m. 0 < m \<and> m \<le> n) (remaining ?n' bs @ [?n' - int (length (concat bs))])"
    using a pos by (auto simp add: list_all_iff simp del: of_nat_0_less_iff)
  moreover have "0 < n" using lt pos by linarith
  moreover have "?n' - int (length (concat bs)) = n - int (length (concat (b # bs)))"
    by simp
  moreover have "int (length (remaining n (b # bs) @ [n - int (length (concat (b # bs)))])) \<le> n"
    using l pos by (simp del: of_nat_0_less_iff)
  ultimately show ?case by (simp del: of_nat_0_less_iff)
qed

lemma contract_blocks:
  assumes "read_contract T"
  shows "0 \<le> n \<Longrightarrow>
    \<exists>blocks. delivers T c n blocks \<or>
              (starves T c n blocks \<and> int (length (concat blocks)) < n)"
proof (induction "nat n" arbitrary: n c rule: less_induct)
  case less
  show ?case
  proof (cases "n = 0")
    case True
    then have "delivers T c n []" by simp
    then show ?thesis by blast
  next
    case nz: False
    let ?b = "fst (sp_read T c n)"
    let ?c = "snd (sp_read T c n)"
    show ?thesis
    proof (cases "?b = []")
      case True
      then have "starves T c n [] \<and> int (length (concat ([] :: byte list list))) < n"
        using nz less.prems by simp
      then show ?thesis by blast
    next
      case False
      have le: "int (length ?b) \<le> n"
        using assms less.prems nz by (simp add: read_contract_def)
      have pos: "0 < int (length ?b)" using False by simp
      have "nat (n - int (length ?b)) < nat n" and ge: "0 \<le> n - int (length ?b)"
        using le pos by linarith+
      from less.hyps [OF this, of ?c]
      obtain bs where bs: "delivers T ?c (n - int (length ?b)) bs \<or>
          (starves T ?c (n - int (length ?b)) bs \<and>
           int (length (concat bs)) < n - int (length ?b))"
        by blast
      then have "delivers T c n (?b # bs) \<or>
          (starves T c n (?b # bs) \<and> int (length (concat (?b # bs))) < n)"
        using nz False by auto
      then show ?thesis by blast
    qed
  qed
qed

text \<open>
  Claim C10. On a port whose \<open>read\<close> returns at most the number of bytes asked for,
  the loop started with a count \<open>n \<ge> 0\<close> returns, and it returns in one of two ways.
  Either the port delivers non-empty blocks of \<open>n\<close> bytes in all: the count has then
  reached zero and the result is the response with those blocks appended. Or the port
  delivers non-empty blocks of fewer than \<open>n\<close> bytes and then a zero-length block: the
  loop then leaves by raising \<open>BusError\<close> with the number of bytes received. On the
  logging port it returns the same, and the log of the sizes asked for is the list of
  the successive values of the count, one for each read: at most \<open>n\<close> entries, each of
  them positive and at most \<open>n\<close>, so the count never goes negative.
\<close>

theorem recv_loop_terminates:
  assumes "read_contract T" and "0 \<le> n"
  shows "\<exists>blocks r c' reqs.
    recv_loop T c n response expected = Some (r, c') \<and>
    recv_loop (logged T) (c, []) n response expected = Some (r, (c', reqs)) \<and>
    int (length reqs) \<le> n \<and> list_all (\<lambda>m. 0 < m \<and> m \<le> n) reqs \<and>
    (delivers T c n blocks \<and> int (length (concat blocks)) = n \<and>
       r = Inr (response @ concat blocks) \<and> c' = after_reads T c n blocks \<and>
       reqs = remaining n blocks
     \<or>
     starves T c n blocks \<and> int (length (concat blocks)) < n \<and>
       r = Inl (BusError (short_response (length response + length (concat blocks)) expected)) \<and>
       c' = snd (sp_read T (after_reads T c n blocks) (n - int (length (concat blocks)))) \<and>
       reqs = remaining n blocks @ [n - int (length (concat blocks))])"
proof -
  from contract_blocks [OF assms, of c] obtain blocks where
    "delivers T c n blocks \<or> (starves T c n blocks \<and> int (length (concat blocks)) < n)"
    by blast
  then show ?thesis
  proof
    assume d: "delivers T c n blocks"
    then have dl: "delivers (logged T) (c, []) n blocks" by (simp add: delivers_logged)
    have "recv_loop T c n response expected =
        Some (Inr (response @ concat blocks), after_reads T c n blocks)"
      using d by (rule recv_loop_delivers)
    moreover have "recv_loop (logged T) (c, []) n response expected =
        Some (Inr (response @ concat blocks), (after_reads T c n blocks, remaining n blocks))"
      using recv_loop_delivers [OF dl, of response expected] by (simp add: after_reads_logged)
    moreover note delivers_remaining [OF d] delivers_length [OF d] d
    ultimately show ?thesis by blast
  next
    assume s: "starves T c n blocks \<and> int (length (concat blocks)) < n"
    then have sl: "starves (logged T) (c, []) n blocks" by (simp add: starves_logged)
    let ?k = "n - int (length (concat blocks))"
    let ?e = "Inl (BusError (short_response (length response + length (concat blocks)) expected))
                :: error + byte list"
    have "recv_loop T c n response expected =
        Some (?e, snd (sp_read T (after_reads T c n blocks) ?k))"
      using s by (simp add: recv_loop_starves)
    moreover have "recv_loop (logged T) (c, []) n response expected =
        Some (?e, (snd (sp_read T (after_reads T c n blocks) ?k), remaining n blocks @ [?k]))"
      using recv_loop_starves [OF sl, of response expected]
      by (simp add: after_reads_logged sp_read_logged)
    moreover have "int (length (remaining n blocks @ [?k])) \<le> n"
      "list_all (\<lambda>m. 0 < m \<and> m \<le> n) (remaining n blocks @ [?k])"
      using starves_remaining [of T c n blocks] s by simp_all
    ultimately show ?thesis using s by blast
  qed
qed

theorem recv_loop_terminates_witness:
  "read_contract sim_port \<and> (0::int) \<le> 5 \<and>
   (\<exists>blocks r c' reqs.
      recv_loop sim_port \<lparr>inbuf = [[0, 1], [2, 3, 4, 5, 6, 7]], outlog = []\<rparr> 5 [] 5 =
        Some (r, c') \<and>
      recv_loop (logged sim_port) (\<lparr>inbuf = [[0, 1], [2, 3, 4, 5, 6, 7]], outlog = []\<rparr>, []) 5 [] 5 =
        Some (r, (c', reqs)) \<and>
      int (length reqs) \<le> 5 \<and> list_all (\<lambda>m. 0 < m \<and> m \<le> 5) reqs \<and>
      (delivers sim_port \<lparr>inbuf = [[0, 1], [2, 3, 4, 5, 6, 7]], outlog = []\<rparr> 5 blocks \<and>
         int (length (concat blocks)) = 5 \<and>
         r = Inr ([] @ concat blocks) \<and>
         c' = after_reads sim_port \<lparr>inbuf = [[0, 1], [2, 3, 4, 5, 6, 7]], outlog = []\<rparr> 5 blocks \<and>
         reqs = remaining 5 blocks
       \<or>
       starves sim_port \<lparr>inbuf = [[0, 1], [2, 3, 4, 5, 6, 7]], outlog = []\<rparr> 5 blocks \<and>
         int (length (concat blocks)) < 5 \<and>
         r = Inl (BusError (short_response (length ([] :: byte list) + length (concat blocks)) 5)) \<and>
         c' = snd (sp_read sim_port
                (after_reads sim_port \<lparr>inbuf = [[0, 1], [2, 3, 4, 5, 6, 7]], outlog = []\<rparr> 5 blocks)
                (5 - int (length (concat blocks)))) \<and>
         reqs = remaining 5 blocks @ [5 - int (length (concat blocks))]))"
proof -
  have h: "(0::int) \<le> 5" by simp
  from recv_loop_terminates [OF sim_read_contract h,
      of "\<lparr>inbuf = [[0, 1], [2, 3, 4, 5, 6, 7]], outlog = []\<rparr>" "[]" 5]
    sim_read_contract h
  show ?thesis by blast
qed

text \<open>An example: five bytes asked for, a burst of two and then three of a burst of six.\<close>

lemma recv_loop_logged_example:
  "recv_loop (logged sim_port) (\<lparr>inbuf = [[0, 1], [2, 3, 4, 5, 6, 7]], outlog = []\<rparr>, []) 5 [] 5 =
     Some (Inr [0, 1, 2, 3, 4], (\<lparr>inbuf = [[5, 6, 7]], outlog = []\<rparr>, [5, 3]))"
  by code_simp

text \<open>The same port starving after two of the five bytes.\<close>

lemma recv_loop_logged_starved:
  "recv_loop (logged sim_port) (\<lparr>inbuf = [[0, 1], [], [9]], outlog = []\<rparr>, []) 5 [] 5 =
     Some (Inl (BusError ''short response; got 2 bytes, expected 5''),
           (\<lparr>inbuf = [[9]], outlog = []\<rparr>, [5, 3]))"
  by code_simp

text \<open>\<open>_recv\<close> as a whole returns on such a port: the length byte is never negative.\<close>

lemma recv_terminates:
  assumes "read_contract T"
  shows "\<exists>r. recv T c = Some r"
proof (cases "sp_read T c 1")
  case (Pair block c1)
  show ?thesis
  proof (cases block)
    case Nil
    with Pair show ?thesis by (simp add: recv_def)
  next
    case (Cons size0 extra)
    obtain r c2 where "recv_loop T c1 (uint size0) [] (uint size0) = Some (r, c2)"
      using recv_loop_logged [OF assms, of "uint size0" c1 "[]" "uint size0" "[]"] by auto
    with Pair Cons show ?thesis
      by (cases r) (auto simp: recv_def split: list.split)
  qed
qed

end
